theory Spec2Isabelle
  imports Main "HOL-Library.Sublist"
begin

section \<open>JavaScript strings and optional values\<close>

text \<open>
  A JavaScript string is a sequence of code units. The model uses \<open>string\<close>; a
  \<open>char\<close> stands for one code unit in the range U+0000 .. U+00FF, and \<open>length\<close> is
  the \<open>.length\<close> of the source string.
\<close>

abbreviation nl :: char where "nl \<equiv> CHR 0x0A"
abbreviation dquote :: char where "dquote \<equiv> CHR 0x22"
abbreviation squote :: char where "squote \<equiv> CHR 0x27"
abbreviation backslash :: char where "backslash \<equiv> CHR 0x5C"

text \<open>A value of type \<open>string | null | undefined\<close>.\<close>

datatype optstr = Undefined | Null | Str string

text \<open>Truthiness of such a value: only a non-empty string is truthy.\<close>

fun truthy :: "optstr \<Rightarrow> bool" where
  "truthy (Str s) = (s \<noteq> [])"
| "truthy _ = False"

text \<open>\<open>x || ""\<close> on such a value.\<close>

fun orEmpty :: "optstr \<Rightarrow> string" where
  "orEmpty (Str s) = s"
| "orEmpty _ = []"

text \<open>
  The character class \<open>\s\<close> of a regular expression, which is also what
  \<open>String.prototype.trim\<close> removes: tab, line feed, vertical tab, form feed, carriage
  return, space and no-break space.
\<close>

definition isSpace :: "char \<Rightarrow> bool" where
  "isSpace c = (c \<in> {CHR 0x09, CHR 0x0A, CHR 0x0B, CHR 0x0C, CHR 0x0D, CHR 0x20, CHR 0xA0})"

definition isDigit :: "char \<Rightarrow> bool" where
  "isDigit c = (c \<in> set ''0123456789'')"

definition isLetter :: "char \<Rightarrow> bool" where
  "isLetter c = (c \<in> set ''abcdefghijklmnopqrstuvwxyzABCDEFGHIJKLMNOPQRSTUVWXYZ'')"

definition trim :: "string \<Rightarrow> string" where
  "trim s = rev (dropWhile isSpace (rev (dropWhile isSpace s)))"

text \<open>\<open>s.replace(/C+/g, r)\<close>: every maximal run of characters of the class becomes \<open>r\<close>.\<close>

function replaceRuns :: "(char \<Rightarrow> bool) \<Rightarrow> string \<Rightarrow> string \<Rightarrow> string" where
  "replaceRuns P r [] = []"
| "replaceRuns P r (c # cs) =
     (if P c then r @ replaceRuns P r (dropWhile P cs) else c # replaceRuns P r cs)"
  by pat_completeness auto
termination
  by (relation "measure (\<lambda>(P, r, s). length s)")
     (auto simp: length_dropWhile_le less_Suc_eq_le)

text \<open>\<open>s.replace(/C/g, r)\<close>: every character of the class becomes \<open>r\<close>.\<close>

definition replaceEach :: "(char \<Rightarrow> bool) \<Rightarrow> string \<Rightarrow> string \<Rightarrow> string" where
  "replaceEach P r s = concat (map (\<lambda>c. if P c then r else [c]) s)"

text \<open>\<open>s.split(d)\<close> for a one-character separator; the result is never empty.\<close>

fun splitOn :: "char \<Rightarrow> string \<Rightarrow> string list" where
  "splitOn d [] = [[]]"
| "splitOn d (c # cs) =
     (if c = d then [] # splitOn d cs
      else (case splitOn d cs of [] \<Rightarrow> [[c]] | l # ls \<Rightarrow> (c # l) # ls))"

section \<open>Tag filter (filter-utils)\<close>

datatype FilterReason = excluded_tag | missing_included_tag

text \<open>The field \<open>include\<close> of the source is \<open>include'\<close> here; an absent \<open>reason\<close> is \<open>None\<close>.\<close>

record FilterResult =
  include' :: bool
  reason :: "FilterReason option"

definition shouldIncludeBookmark ::
  "string list \<Rightarrow> string list \<Rightarrow> string list \<Rightarrow> bool \<Rightarrow> FilterResult" where
  "shouldIncludeBookmark bookmarkTags includedTags excludedTags isFavorited =
     (if length includedTags > 0
         \<and> \<not> list_ex (\<lambda>includedTag. includedTag \<in> set bookmarkTags) includedTags
      then \<lparr>include' = False, reason = Some missing_included_tag\<rparr>
      else if \<not> isFavorited \<and> length excludedTags > 0
         \<and> list_ex (\<lambda>excludedTag. excludedTag \<in> set bookmarkTags) excludedTags
      then \<lparr>include' = False, reason = Some excluded_tag\<rparr>
      else \<lparr>include' = True, reason = None\<rparr>)"

section \<open>Deletion and archival classifier (deletion-handler)\<close>

datatype DeletionAction = Delete | Archive | Tag | Ignore

datatype HandlingReason = Deleted | Archived

record DeletionSettings =
  syncDeletions :: bool
  deletionAction :: DeletionAction
  handleArchivedBookmarks :: bool
  archivedBookmarkAction :: DeletionAction

text \<open>The field \<open>reason\<close> of the source is \<open>handlingReason\<close> here (the name is taken above).\<close>

record FileHandlingInstruction =
  bookmarkId :: string
  action :: DeletionAction
  handlingReason :: HandlingReason

record DeletionResults =
  deleted :: nat
  archived :: nat
  tagged :: nat
  archivedHandled :: nat

text \<open>The \<open>for\<close> loop of \<open>determineDeletionActions\<close>, pushing onto \<open>instructions\<close>.\<close>

fun deletionLoop ::
  "string set \<Rightarrow> string set \<Rightarrow> DeletionSettings \<Rightarrow> string list
     \<Rightarrow> FileHandlingInstruction list \<Rightarrow> FileHandlingInstruction list" where
  "deletionLoop activeBookmarkIds archivedBookmarkIds settings [] instructions = instructions"
| "deletionLoop activeBookmarkIds archivedBookmarkIds settings (localId # rest) instructions =
     (let isActive = localId \<in> activeBookmarkIds;
          isArchived = localId \<in> archivedBookmarkIds
      in deletionLoop activeBookmarkIds archivedBookmarkIds settings rest
           (if \<not> isActive \<and> \<not> isArchived then
              (if syncDeletions settings \<and> deletionAction settings \<noteq> Ignore
               then instructions @
                      [\<lparr>bookmarkId = localId, action = deletionAction settings,
                        handlingReason = Deleted\<rparr>]
               else instructions)
            else if \<not> isActive \<and> isArchived then
              (if handleArchivedBookmarks settings \<and> archivedBookmarkAction settings \<noteq> Ignore
               then instructions @
                      [\<lparr>bookmarkId = localId, action = archivedBookmarkAction settings,
                        handlingReason = Archived\<rparr>]
               else instructions)
            else instructions))"

definition determineDeletionActions ::
  "string list \<Rightarrow> string set \<Rightarrow> string set \<Rightarrow> DeletionSettings
     \<Rightarrow> FileHandlingInstruction list" where
  "determineDeletionActions localBookmarkIds activeBookmarkIds archivedBookmarkIds settings =
     (if \<not> syncDeletions settings \<and> \<not> handleArchivedBookmarks settings then []
      else deletionLoop activeBookmarkIds archivedBookmarkIds settings localBookmarkIds [])"

text \<open>One iteration of the counting loop: the \<open>switch\<close> has no case for \<open>ignore\<close>.\<close>

fun countOne :: "DeletionResults \<Rightarrow> FileHandlingInstruction \<Rightarrow> DeletionResults" where
  "countOne results instruction =
     (case handlingReason instruction of
        Deleted \<Rightarrow>
          (case action instruction of
             Delete \<Rightarrow> results\<lparr>deleted := deleted results + 1\<rparr>
           | Archive \<Rightarrow> results\<lparr>archived := archived results + 1\<rparr>
           | Tag \<Rightarrow> results\<lparr>tagged := tagged results + 1\<rparr>
           | Ignore \<Rightarrow> results)
      | Archived \<Rightarrow> results\<lparr>archivedHandled := archivedHandled results + 1\<rparr>)"

definition countDeletionResults :: "FileHandlingInstruction list \<Rightarrow> DeletionResults" where
  "countDeletionResults instructions =
     foldl countOne \<lparr>deleted = 0, archived = 0, tagged = 0, archivedHandled = 0\<rparr> instructions"

text \<open>The sum of the four counters.\<close>

definition bucketSum :: "DeletionResults \<Rightarrow> nat" where
  "bucketSum r = deleted r + archived r + tagged r + archivedHandled r"

section \<open>Header escaping (formatting-utils)\<close>

definition yamlSpecial :: "char \<Rightarrow> bool" where
  "yamlSpecial c = (c \<in> set '':#{}[],&*?|<>=!%@`'')"

definition escapeYaml :: "optstr \<Rightarrow> string" where
  "escapeYaml str =
     (if \<not> truthy str then []
      else let s = orEmpty str in
        if nl \<in> set s \<or> list_ex yamlSpecial s
        then ''|'' @ [nl] @ ''  '' @ replaceEach (\<lambda>c. c = nl) (nl # ''  '') s
        else if dquote \<in> set s then [squote] @ s @ [squote]
        else if squote \<in> set s \<or> hd s \<in> {CHR '' '', CHR 0x09} \<or> last s \<in> {CHR '' '', CHR 0x09}
        then [dquote] @ replaceEach (\<lambda>c. c = dquote) [backslash, dquote] s @ [dquote]
        else s)"

definition escapeMarkdownPath :: "string \<Rightarrow> string" where
  "escapeMarkdownPath path =
     (if CHR '' '' \<in> set path \<or> list_ex (\<lambda>c. c \<in> set ''<>[](){}'') path
      then ''<'' @ path @ ''>'' else path)"

section \<open>Tag sanitizer (tag-utils)\<close>

text \<open>The class \<open>[a-zA-Z0-9_\-/]\<close>, and the class \<open>[\d\/\-_]\<close> of the last test.\<close>

definition tagChar :: "char \<Rightarrow> bool" where
  "tagChar c = (isLetter c \<or> isDigit c \<or> c \<in> set ''_-/'')"

definition digitOrSeparator :: "char \<Rightarrow> bool" where
  "digitOrSeparator c = (isDigit c \<or> c \<in> set ''/-_'')"

text \<open>\<open>null\<close> is \<open>None\<close>. A test \<open>/^C+$/\<close> holds of a non-empty string of the class.\<close>

definition sanitizeTag :: "string \<Rightarrow> string option" where
  "sanitizeTag tag =
     (let sanitized = trim tag in
      if sanitized = [] then None
      else
        let sanitized = replaceRuns isSpace ''-'' sanitized;
            sanitized = filter tagChar sanitized
        in if sanitized = [] then None
           else
             let sanitized =
                   (if sanitized \<noteq> [] \<and> list_all isDigit sanitized
                    then ''tag-'' @ sanitized else sanitized);
                 sanitized =
                   (if sanitized \<noteq> [] \<and> list_all digitOrSeparator sanitized
                    then ''tag-'' @ sanitized else sanitized)
             in Some sanitized)"

definition sanitizeTags :: "string list \<Rightarrow> string list" where
  "sanitizeTags tags = List.map_filter sanitizeTag tags"

section \<open>The platform: dates and URLs\<close>

text \<open>
  \<open>Date\<close> and \<open>URL\<close> belong to the JavaScript runtime, not to the plugin. A \<open>Date\<close>
  is its time value, \<open>None\<close> for an invalid date. The runtime's functions are passed
  to the model: \<open>parseDate\<close> is \<open>new Date(s)\<close> on a string, \<open>isoString\<close> renders a
  valid time value as \<open>toISOString\<close> does, \<open>localeDate\<close> is the
  \<open>toLocaleDateString\<close> call of the renderer, and \<open>parseURL\<close> is \<open>new URL(s)\<close>, with
  \<open>None\<close> where the constructor throws.
\<close>

type_synonym jsdate = "int option"

record parsedURL =
  pathname :: string
  hostname :: string

record platform =
  parseDate :: "string \<Rightarrow> jsdate"
  isoString :: "int \<Rightarrow> string"
  localeDate :: "jsdate \<Rightarrow> string"
  parseURL :: "string \<Rightarrow> parsedURL option"

datatype error = RangeError

text \<open>\<open>d.toISOString()\<close> throws a \<open>RangeError\<close> on an invalid date.\<close>

definition toISOString :: "platform \<Rightarrow> jsdate \<Rightarrow> error + string" where
  "toISOString pf d = (case d of None \<Rightarrow> Inl RangeError | Some t \<Rightarrow> Inr (isoString pf t))"

section \<open>Filename builder (filename-utils)\<close>

text \<open>The class \<open>[\\/:*?"<>|]\<close>.\<close>

definition fsInvalid :: "char \<Rightarrow> bool" where
  "fsInvalid c = (c \<in> set ([backslash, dquote] @ ''/:*?<>|''))"

text \<open>\<open>s.replace(/^-|-$/g, "")\<close>: a dash at the start and a dash at the end are removed.\<close>

definition stripDashes :: "string \<Rightarrow> string" where
  "stripDashes s =
     (let s1 = (if s \<noteq> [] \<and> hd s = CHR ''-'' then tl s else s)
      in if s1 \<noteq> [] \<and> last s1 = CHR ''-'' then butlast s1 else s1)"

text \<open>\<open>s.lastIndexOf(c)\<close>, which is \<open>-1\<close> when \<open>c\<close> does not occur.\<close>

definition lastIndexOf :: "char \<Rightarrow> string \<Rightarrow> int" where
  "lastIndexOf c s =
     (if c \<in> set s then int (length s) - 1 - int (length (takeWhile (\<lambda>x. x \<noteq> c) (rev s)))
      else - 1)"

text \<open>The argument \<open>createdAt\<close> is a string or a \<open>Date\<close>.\<close>

datatype createdArg = DateString string | DateObject jsdate

text \<open>\<open>typeof createdAt === "string" ? new Date(createdAt) : createdAt\<close>.\<close>

definition toDate :: "platform \<Rightarrow> createdArg \<Rightarrow> jsdate" where
  "toDate pf createdAt = (case createdAt of DateString s \<Rightarrow> parseDate pf s | DateObject d \<Rightarrow> d)"

definition sanitizeFileName :: "platform \<Rightarrow> string \<Rightarrow> createdArg \<Rightarrow> error + string" where
  "sanitizeFileName pf title createdAt =
     (let date = toDate pf createdAt
      in case toISOString pf date of
           Inl e \<Rightarrow> Inl e
         | Inr isoStr \<Rightarrow>
             let dateStr = hd (splitOn CHR ''T'' isoStr);
                 sanitizedTitle =
                   stripDashes
                     (replaceRuns (\<lambda>c. c = CHR ''-'') ''-''
                        (replaceRuns isSpace ''-'' (replaceEach fsInvalid ''-'' title)));
                 maxTitleLength = 36;
                 sanitizedTitle =
                   (if length sanitizedTitle > maxTitleLength then
                      let truncated = take maxTitleLength sanitizedTitle;
                          lastDash = lastIndexOf CHR ''-'' truncated
                      in if lastDash > int maxTitleLength div 2
                         then take (nat lastDash) truncated
                         else truncated
                    else sanitizedTitle)
             in Inr (dateStr @ ''-'' @ sanitizedTitle))"

section \<open>Title resolver (bookmark-utils)\<close>

datatype contentType = Link | Text | Asset | Unknown

text \<open>
  \<open>HoarderBookmarkContent\<close>: one record for all variants, a type tag and optional
  fields. Only the fields that the modelled functions read are kept; \<open>ctitle\<close> is the
  field \<open>title\<close> and \<open>ctext\<close> the field \<open>text\<close> of the source.
\<close>

record HoarderBookmarkContent =
  ctype :: contentType
  url :: optstr
  ctitle :: optstr
  description :: optstr
  ctext :: optstr
  sourceUrl :: optstr
  fileName :: optstr

record HoarderTag =
  name :: string

text \<open>
  \<open>HoarderBookmark\<close>; \<open>bid\<close> is the field \<open>id\<close> and \<open>bnote\<close> the field \<open>note\<close> of
  the source.
\<close>

record HoarderBookmark =
  bid :: string
  createdAt :: string
  modifiedAt :: optstr
  title :: optstr
  bnote :: optstr
  summary :: optstr
  tags :: "HoarderTag list"
  content :: HoarderBookmarkContent

text \<open>
  \<open>s.replace(/\.[^/.]+$/, "")\<close>: the leftmost dot that is followed, up to the end of
  the string, by one or more characters other than \<open>/\<close> and \<open>.\<close> is removed with
  what follows it.
\<close>

fun stripExtension :: "string \<Rightarrow> string" where
  "stripExtension [] = []"
| "stripExtension (c # cs) =
     (if c = CHR ''.'' \<and> cs \<noteq> [] \<and> list_all (\<lambda>d. d \<noteq> CHR ''/'' \<and> d \<noteq> CHR ''.'') cs
      then [] else c # stripExtension cs)"

text \<open>\<open>s.replace(/^www\./, "")\<close>.\<close>

definition stripWww :: "string \<Rightarrow> string" where
  "stripWww s = (if prefix ''www.'' s then drop 4 s else s)"

definition extractTitleFromUrl :: "platform \<Rightarrow> string \<Rightarrow> string" where
  "extractTitleFromUrl pf u =
     (case parseURL pf u of
        None \<Rightarrow> u
      | Some parsedUrl \<Rightarrow>
          let pathTitle =
                replaceEach (\<lambda>c. c = CHR ''-'' \<or> c = CHR ''_'') '' ''
                  (stripExtension (last (splitOn CHR ''/'' (pathname parsedUrl))))
          in if pathTitle \<noteq> [] then pathTitle else stripWww (hostname parsedUrl))"

definition extractTitleFromText :: "string \<Rightarrow> string" where
  "extractTitleFromText t =
     (let firstLine = hd (splitOn nl t)
      in if length firstLine \<le> 100 then firstLine else take 97 firstLine @ ''...'')"

definition getBookmarkTitle :: "platform \<Rightarrow> HoarderBookmark \<Rightarrow> error + string" where
  "getBookmarkTitle pf bookmark =
     (let c = content bookmark;
          fallback =
            (case toISOString pf (parseDate pf (createdAt bookmark)) of
               Inl e \<Rightarrow> Inl e
             | Inr isoStr \<Rightarrow> Inr (''Bookmark-'' @ bid bookmark @ ''-'' @ hd (splitOn CHR ''T'' isoStr)))
      in if truthy (title bookmark) then Inr (orEmpty (title bookmark))
         else if ctype c = Link then
           (if truthy (ctitle c) then Inr (orEmpty (ctitle c))
            else if truthy (url c) then Inr (extractTitleFromUrl pf (orEmpty (url c)))
            else fallback)
         else if ctype c = Text then
           (if truthy (ctext c) then Inr (extractTitleFromText (orEmpty (ctext c)))
            else fallback)
         else if ctype c = Asset then
           (if truthy (fileName c) then Inr (stripExtension (orEmpty (fileName c)))
            else if truthy (sourceUrl c) then Inr (extractTitleFromUrl pf (orEmpty (sourceUrl c)))
            else fallback)
         else fallback)"

section \<open>Notes extractor (markdown-utils)\<close>

definition notesMarker :: string where
  "notesMarker = ''## Notes'' @ [nl, nl]"

text \<open>
  The text that follows the leftmost occurrence of \<open>needle\<close>, \<open>None\<close> when it does not
  occur: where a match of a literal pattern ends.
\<close>

fun afterFirst :: "string \<Rightarrow> string \<Rightarrow> string option" where
  "afterFirst needle [] = (if needle = [] then Some [] else None)"
| "afterFirst needle (c # cs) =
     (if prefix needle (c # cs) then Some (drop (length needle) (c # cs))
      else afterFirst needle cs)"

text \<open>
  The group \<open>([\s\S]*?)\<close> before the lookahead \<open>(?=\n##|\n\[|$)\<close>: the shortest prefix
  after which the text goes on with a line feed and \<open>##\<close>, or with a line feed and
  \<open>[\<close>, or ends.
\<close>

fun lazyCapture :: "string \<Rightarrow> string" where
  "lazyCapture [] = []"
| "lazyCapture (c # cs) =
     (if prefix (nl # ''##'') (c # cs) \<or> prefix (nl # ''['') (c # cs) then []
      else c # lazyCapture cs)"

text \<open>
  \<open>content.match(/## Notes\n\n([\s\S]*?)(?=\n##|\n\[|$)/)\<close>: the lookahead succeeds at
  the end of the text at the latest, so the match is at the leftmost occurrence of
  the marker.
\<close>

definition extractNotesSection :: "string \<Rightarrow> string option" where
  "extractNotesSection doc =
     (case afterFirst notesMarker doc of
        None \<Rightarrow> None
      | Some rest \<Rightarrow> Some (trim (lazyCapture rest)))"

text \<open>No line of \<open>n\<close> after the first begins with \<open>##\<close> or with \<open>[\<close>.\<close>

definition laterLinesPlain :: "string \<Rightarrow> bool" where
  "laterLinesPlain n =
     list_all (\<lambda>l. \<not> prefix ''##'' l \<and> \<not> prefix ''['' l) (tl (splitOn nl n))"

section \<open>Document renderer (main)\<close>

datatype highlightColor = Yellow | Red | Green | Blue

fun colorName :: "highlightColor \<Rightarrow> string" where
  "colorName Yellow = ''yellow''"
| "colorName Red = ''red''"
| "colorName Green = ''green''"
| "colorName Blue = ''blue''"

text \<open>
  \<open>HoarderHighlight\<close>, with the fields the renderer reads: \<open>htext\<close>, \<open>hnote\<close> and
  \<open>hcreatedAt\<close> are the fields \<open>text\<close>, \<open>note\<close> and \<open>createdAt\<close> of the source.
\<close>

record HoarderHighlight =
  startOffset :: int
  color :: highlightColor
  htext :: string
  hnote :: string
  hcreatedAt :: string

text \<open>
  What \<open>processBookmarkAssets\<close> returns. It downloads files, so its result is an
  input of the model: the body text for the assets and the optional header entries.
\<close>

record AssetsFrontmatter =
  image :: optstr
  banner :: optstr
  screenshot :: optstr
  full_page_archive :: optstr
  video :: optstr
  additional :: "string list"

record ProcessedAssets =
  assetContent :: string
  assetsFm :: "AssetsFrontmatter option"

record HoarderSettings =
  apiKey :: string
  apiEndpoint :: string
  lastSyncTimestamp :: int
  updateExistingFiles :: bool
  syncNotesToHoarder :: bool
  syncHighlights :: bool

text \<open>\<open>xs.join(sep)\<close>.\<close>

fun joinWith :: "string \<Rightarrow> string list \<Rightarrow> string" where
  "joinWith sep [] = []"
| "joinWith sep [x] = x"
| "joinWith sep (x # y # ys) = x @ sep @ joinWith sep (y # ys)"

text \<open>\<open>s.replace(needle, r)\<close> for a string pattern: the first occurrence only.\<close>

fun replaceFirst :: "string \<Rightarrow> string \<Rightarrow> string \<Rightarrow> string" where
  "replaceFirst needle r [] = (if needle = [] then r else [])"
| "replaceFirst needle r (c # cs) =
     (if prefix needle (c # cs) then r @ drop (length needle) (c # cs)
      else c # replaceFirst needle r cs)"

definition escapeTag :: "string \<Rightarrow> string" where
  "escapeTag tag =
     (let processedTag = replaceRuns isSpace ''-'' tag
      in if dquote \<in> set processedTag then [squote] @ processedTag @ [squote]
         else [dquote] @ processedTag @ [dquote])"

definition yamlLine :: "string \<Rightarrow> optstr \<Rightarrow> string list" where
  "yamlLine key v = (if truthy v then [key @ '': '' @ orEmpty v] else [])"

definition assetsYaml :: "AssetsFrontmatter option \<Rightarrow> string" where
  "assetsYaml fm =
     (case fm of
        None \<Rightarrow> []
      | Some a \<Rightarrow>
          joinWith [nl]
            (yamlLine ''image'' (image a) @ yamlLine ''banner'' (banner a)
             @ yamlLine ''screenshot'' (screenshot a)
             @ yamlLine ''full_page_archive'' (full_page_archive a)
             @ yamlLine ''video'' (video a)
             @ (if length (additional a) > 0
                then ''additional:'' # map (\<lambda>l. ''  - '' @ l) (additional a) else []))
          @ [nl])"

text \<open>The lines of a highlight's note: the first one carries the label.\<close>

fun noteLines :: "string list \<Rightarrow> string" where
  "noteLines [] = []"
| "noteLines (l # ls) =
     ''> *Note: '' @ l @ ''*'' @ [nl] @ concat (map (\<lambda>m. ''> *'' @ m @ ''*'' @ [nl]) ls)"

definition renderHighlight :: "platform \<Rightarrow> HoarderHighlight \<Rightarrow> string" where
  "renderHighlight pf h =
     ''> [!karakeep-'' @ colorName (color h) @ ''] ''
       @ localeDate pf (parseDate pf (hcreatedAt h)) @ [nl]
     @ concat (map (\<lambda>line. ''> '' @ line @ [nl]) (splitOn nl (htext h)))
     @ (if hnote h \<noteq> [] \<and> trim (hnote h) \<noteq> []
        then ''>'' @ [nl] @ noteLines (splitOn nl (hnote h)) else [])
     @ [nl]"

text \<open>
  \<open>formatBookmarkAsMarkdown\<close> up to and including the highlights: the header, the
  heading, the assets, the summary, the description and the highlights. The two
  \<open>toISOString\<close> calls of the header can throw.
\<close>

definition renderBeforeNotes ::
  "platform \<Rightarrow> HoarderSettings \<Rightarrow> ProcessedAssets \<Rightarrow> HoarderBookmark \<Rightarrow> string
     \<Rightarrow> HoarderHighlight list option \<Rightarrow> error + string" where
  "renderBeforeNotes pf settings assets bookmark ttl highlights =
     (let c = content bookmark;
          theUrl = (if ctype c = Link then url c else sourceUrl c);
          theDescription = (if ctype c = Link then description c else ctext c);
          tagNames = map name (tags bookmark)
      in case toISOString pf (parseDate pf (createdAt bookmark)) of
           Inl e \<Rightarrow> Inl e
         | Inr created \<Rightarrow>
            (case (if truthy (modifiedAt bookmark)
                   then toISOString pf (parseDate pf (orEmpty (modifiedAt bookmark)))
                   else Inr []) of
               Inl e \<Rightarrow> Inl e
             | Inr modified \<Rightarrow>
                 let doc =
                       ''---'' @ [nl]
                       @ ''bookmark_id: '' @ [dquote] @ bid bookmark @ [dquote, nl]
                       @ ''url: '' @ escapeYaml theUrl @ [nl]
                       @ ''title: '' @ escapeYaml (Str ttl) @ [nl]
                       @ ''date: '' @ created @ [nl]
                       @ (if truthy (modifiedAt bookmark)
                          then ''modified: '' @ modified @ [nl] else [])
                       @ ''tags:'' @ [nl]
                       @ ''  - '' @ joinWith (nl # ''  - '') (map escapeTag tagNames) @ [nl]
                       @ ''note: '' @ escapeYaml (bnote bookmark) @ [nl]
                       @ ''original_note: '' @ escapeYaml (bnote bookmark) @ [nl]
                       @ ''summary: '' @ escapeYaml (summary bookmark) @ [nl]
                       @ assetsYaml (assetsFm assets) @ [nl]
                       @ ''---'' @ [nl]
                       @ [nl]
                       @ ''# '' @ ttl @ [nl];
                     doc = doc @ assetContent assets;
                     doc = (if truthy (summary bookmark)
                            then doc @ [nl] @ ''## Summary'' @ [nl, nl]
                                   @ orEmpty (summary bookmark) @ [nl]
                            else doc);
                     doc = (if truthy theDescription
                            then doc @ [nl] @ ''## Description'' @ [nl, nl]
                                   @ orEmpty theDescription @ [nl]
                            else doc);
                     doc = (case highlights of
                              None \<Rightarrow> doc
                            | Some hs \<Rightarrow>
                                if length hs > 0 \<and> syncHighlights settings
                                then doc @ [nl] @ ''## Highlights'' @ [nl, nl]
                                       @ concat (map (renderHighlight pf)
                                                   (sort_key startOffset hs))
                                else doc)
                 in Inr doc))"

text \<open>The rest of \<open>formatBookmarkAsMarkdown\<close>: the Notes section and the two links.\<close>

definition formatBookmarkAsMarkdown ::
  "platform \<Rightarrow> HoarderSettings \<Rightarrow> ProcessedAssets \<Rightarrow> HoarderBookmark \<Rightarrow> string
     \<Rightarrow> HoarderHighlight list option \<Rightarrow> error + string" where
  "formatBookmarkAsMarkdown pf settings assets bookmark ttl highlights =
     (case renderBeforeNotes pf settings assets bookmark ttl highlights of
        Inl e \<Rightarrow> Inl e
      | Inr doc \<Rightarrow>
          let c = content bookmark;
              theUrl = (if ctype c = Link then url c else sourceUrl c);
              doc = doc @ [nl] @ ''## Notes'' @ [nl, nl] @ orEmpty (bnote bookmark) @ [nl];
              doc = (if truthy theUrl \<and> ctype c \<noteq> Asset
                     then doc @ [nl] @ ''[Visit Link]('' @ escapeMarkdownPath (orEmpty theUrl)
                            @ '')'' @ [nl]
                     else doc);
              hoarderUrl = replaceFirst ''/api/v1'' ''/dashboard/preview'' (apiEndpoint settings)
                             @ ''/'' @ bid bookmark
          in Inr (doc @ [nl] @ ''[View in Hoarder]('' @ escapeMarkdownPath hoarderUrl @ '')''))"

section \<open>Reconciliation driver: entry and exit of a sync pass (main)\<close>

text \<open>The fields of the plugin object that \<open>syncBookmarks\<close> reads or writes.\<close>

record HoarderPlugin =
  isSyncing :: bool
  skippedFiles :: nat
  lastSyncedNotes :: optstr
  settings :: HoarderSettings

text \<open>
  What the plugin does to the outside: lines written to the console, events
  triggered on \<open>this.events\<close>, requests sent to the remote API and operations on
  the vault, each in order.
\<close>

record world =
  consoleLog :: "string list"
  events :: "(string \<times> bool) list"
  remoteRequests :: "string list"
  fileOperations :: "string list"

record syncResult =
  success :: bool
  message :: string

definition showBool :: "bool \<Rightarrow> string" where
  "showBool b = (if b then ''true'' else ''false'')"

definition setSyncing :: "bool \<Rightarrow> HoarderPlugin \<times> world \<Rightarrow> HoarderPlugin \<times> world" where
  "setSyncing v pw =
     (case pw of (p, w) \<Rightarrow>
        (p\<lparr>isSyncing := v\<rparr>, w\<lparr>events := events w @ [(''sync-state-change'', v)]\<rparr>))"

text \<open>
  \<open>syncBookmarks\<close>. The body of its \<open>try\<close> block (the fetches, the per-bookmark
  loop, the deletion handling and the summary) is the parameter \<open>tryBlock\<close>: it
  returns the success message, or the message of the exception it threw, with the
  plugin and the world as it left them. The guards before the block, the \<open>catch\<close>
  and the \<open>finally\<close> are as in the source.
\<close>

definition syncBookmarks ::
  "(HoarderPlugin \<times> world \<Rightarrow> (string + string) \<times> HoarderPlugin \<times> world)
     \<Rightarrow> HoarderPlugin \<times> world \<Rightarrow> syncResult \<times> HoarderPlugin \<times> world" where
  "syncBookmarks tryBlock pw =
     (case pw of (p, w) \<Rightarrow>
        if isSyncing p then
          (\<lparr>success = False, message = ''Sync already in progress''\<rparr>, p,
           w\<lparr>consoleLog := consoleLog w @ [''[Hoarder] Sync already in progress'']\<rparr>)
        else if apiKey (settings p) = [] then
          (\<lparr>success = False, message = ''Hoarder API key not configured''\<rparr>, p,
           w\<lparr>consoleLog := consoleLog w @ [''[Hoarder] API key not configured'']\<rparr>)
        else
          let w1 = w\<lparr>consoleLog := consoleLog w @
                      [''[Hoarder] Starting sync...'',
                       ''[Hoarder] Settings: syncNotesToHoarder=''
                         @ showBool (syncNotesToHoarder (settings p))
                         @ '', updateExistingFiles=''
                         @ showBool (updateExistingFiles (settings p))]\<rparr>;
              (p2, w2) = setSyncing True (p, w1);
              p3 = p2\<lparr>skippedFiles := 0\<rparr>;
              (outcome, p4, w4) = tryBlock (p3, w2);
              (result, w5) =
                (case outcome of
                   Inr msg \<Rightarrow> (\<lparr>success = True, message = msg\<rparr>, w4)
                 | Inl err \<Rightarrow>
                     (\<lparr>success = False, message = ''Error syncing: '' @ err\<rparr>,
                      w4\<lparr>consoleLog := consoleLog w4 @ [''Error syncing bookmarks: '' @ err]\<rparr>));
              (p6, w6) = setSyncing False (p4, w5);
              p7 = p6\<lparr>skippedFiles := 0\<rparr>
          in (result, p7, w6))"

section \<open>Example inputs\<close>

text \<open>A runtime that knows one timestamp and one URL, for evaluating the model.\<close>

definition examplePlatform :: platform where
  "examplePlatform =
     \<lparr>parseDate = (\<lambda>s. if s = ''2024-01-15T10:30:00.000Z'' then Some 1705314600000 else None),
      isoString = (\<lambda>t. ''2024-01-15T10:30:00.000Z''),
      localeDate = (\<lambda>d. ''January 15, 2024''),
      parseURL = (\<lambda>u. if u = ''https://example.com/my-article.html''
                        then Some \<lparr>pathname = ''/my-article.html'', hostname = ''example.com''\<rparr>
                        else None)\<rparr>"

text \<open>
  A runtime at the first instant of the year 10000. \<open>toISOString\<close> renders a year
  outside 0000 .. 9999 with a sign and six digits.
\<close>

definition farFuturePlatform :: platform where
  "farFuturePlatform =
     \<lparr>parseDate = (\<lambda>s. if s = ''+010000-01-01T00:00:00.000Z'' then Some 253402300800000
                        else None),
      isoString = (\<lambda>t. ''+010000-01-01T00:00:00.000Z''),
      localeDate = (\<lambda>d. ''January 1, 10000''),
      parseURL = (\<lambda>u. None)\<rparr>"

definition exampleSettings :: HoarderSettings where
  "exampleSettings =
     \<lparr>apiKey = ''key'', apiEndpoint = ''https://hoarder.example/api/v1'',
      lastSyncTimestamp = 0, updateExistingFiles = True, syncNotesToHoarder = True,
      syncHighlights = True\<rparr>"

definition noAssets :: ProcessedAssets where
  "noAssets = \<lparr>assetContent = [], assetsFm = None\<rparr>"

text \<open>A text bookmark with the given text and note.\<close>

definition textBookmark :: "string \<Rightarrow> string \<Rightarrow> HoarderBookmark" where
  "textBookmark t n =
     \<lparr>bid = ''b1'', createdAt = ''2024-01-15T10:30:00.000Z'', modifiedAt = Null,
      title = Undefined, bnote = Str n, summary = Null, tags = [\<lparr>name = ''reading list''\<rparr>],
      content = \<lparr>ctype = Text, url = Undefined, ctitle = Undefined, description = Undefined,
                  ctext = Str t, sourceUrl = Undefined, fileName = Undefined\<rparr>\<rparr>"

text \<open>A plugin in the middle of a pass, and a pass body that fetches and writes.\<close>

definition busyPlugin :: HoarderPlugin where
  "busyPlugin =
     \<lparr>isSyncing = True, skippedFiles = 3, lastSyncedNotes = Null, settings = exampleSettings\<rparr>"

definition quietWorld :: world where
  "quietWorld = \<lparr>consoleLog = [], events = [], remoteRequests = [], fileOperations = []\<rparr>"

definition examplePass ::
  "HoarderPlugin \<times> world \<Rightarrow> (string + string) \<times> HoarderPlugin \<times> world" where
  "examplePass pw =
     (case pw of (p, w) \<Rightarrow>
        (Inr ''Successfully synced 1 bookmark'',
         p\<lparr>settings := (settings p)\<lparr>lastSyncTimestamp := 1705314600000\<rparr>\<rparr>,
         w\<lparr>remoteRequests := remoteRequests w @ [''GET /bookmarks''],
           fileOperations := fileOperations w @ [''create Hoarder/2024-01-15-Buy-milk.md'']\<rparr>))"

section \<open>Verified properties\<close>

subsection \<open>Deletion and archival classifier\<close>

lemma deletionLoop_ids:
  "i \<in> set (deletionLoop act arch st ids acc) \<Longrightarrow>
     i \<in> set acc \<or> (bookmarkId i \<in> set ids \<and> bookmarkId i \<notin> act)"
proof (induction ids arbitrary: acc)
  case Nil
  then show ?case by simp
next
  case (Cons b rest)
  show ?case
  proof (cases "b \<in> act")
    case True
    with Cons.prems have "i \<in> set (deletionLoop act arch st rest acc)"
      by (simp add: Let_def)
    from Cons.IH [OF this] show ?thesis by auto
  next
    case False
    define pushed where "pushed = (if b \<in> arch
        then \<lparr>bookmarkId = b, action = archivedBookmarkAction st, handlingReason = Archived\<rparr>
        else \<lparr>bookmarkId = b, action = deletionAction st, handlingReason = Deleted\<rparr>)"
    have b: "bookmarkId pushed = b" by (simp add: pushed_def)
    from Cons.prems False
    have "i \<in> set (deletionLoop act arch st rest acc)
          \<or> i \<in> set (deletionLoop act arch st rest (acc @ [pushed]))"
      by (simp add: Let_def pushed_def split: if_splits)
    then show ?thesis
    proof
      assume "i \<in> set (deletionLoop act arch st rest acc)"
      from Cons.IH [OF this] show ?thesis by auto
    next
      assume "i \<in> set (deletionLoop act arch st rest (acc @ [pushed]))"
      from Cons.IH [OF this] b False show ?thesis by auto
    qed
  qed
qed

text \<open>
  C2. A local id that is a member of \<open>activeBookmarkIds\<close> gets no instruction from
  \<open>determineDeletionActions\<close>, whatever the archived set and the settings are.
\<close>

theorem active_id_no_instruction:
  "localId \<in> activeBookmarkIds \<Longrightarrow>
     \<forall>i \<in> set (determineDeletionActions localBookmarkIds activeBookmarkIds
                   archivedBookmarkIds cfg).
       bookmarkId i \<noteq> localId"
  by (auto simp: determineDeletionActions_def dest: deletionLoop_ids)

theorem active_id_no_instruction_witness:
  "''a'' \<in> {''a''} \<and>
   determineDeletionActions [''a'', ''x''] {''a''} {''a''}
     \<lparr>syncDeletions = True, deletionAction = Delete,
      handleArchivedBookmarks = True, archivedBookmarkAction = Archive\<rparr>
   = [\<lparr>bookmarkId = ''x'', action = Delete, handlingReason = Deleted\<rparr>]
   \<and> ''a'' \<notin> bookmarkId ` set (determineDeletionActions [''a'', ''x''] {''a''} {''a''}
          \<lparr>syncDeletions = True, deletionAction = Delete,
           handleArchivedBookmarks = True, archivedBookmarkAction = Archive\<rparr>)"
  using active_id_no_instruction [of "''a''" "{''a''}" "[''a'', ''x'']" "{''a''}"
     "\<lparr>syncDeletions = True, deletionAction = Delete,
       handleArchivedBookmarks = True, archivedBookmarkAction = Archive\<rparr>"]
  by (simp add: determineDeletionActions_def)

lemma bucketSum_countOne:
  "bucketSum (countOne r i) =
     bucketSum r + (if handlingReason i = Deleted \<and> action i = Ignore then 0 else 1)"
  by (cases "handlingReason i"; cases "action i") (simp_all add: bucketSum_def)

lemma bucketSum_foldl:
  "bucketSum (foldl countOne r is) =
     bucketSum r
       + length (filter (\<lambda>i. \<not> (handlingReason i = Deleted \<and> action i = Ignore)) is)"
proof (induction "is" arbitrary: r)
  case Nil
  then show ?case by simp
next
  case (Cons i "is")
  show ?case
    unfolding foldl_Cons Cons.IH bucketSum_countOne by simp
qed

text \<open>
  C4, as the code has it. For every list of instructions none of which is an
  \<open>ignore\<close> action with reason \<open>deleted\<close>, the four counters of
  \<open>countDeletionResults\<close> add up to the length of the list.
\<close>

theorem count_sum_without_ignored_deletions:
  "\<forall>i \<in> set instructions. \<not> (handlingReason i = Deleted \<and> action i = Ignore) \<Longrightarrow>
     deleted (countDeletionResults instructions) + archived (countDeletionResults instructions)
       + tagged (countDeletionResults instructions)
       + archivedHandled (countDeletionResults instructions)
     = length instructions"
  using bucketSum_foldl [of "\<lparr>deleted = 0, archived = 0, tagged = 0, archivedHandled = 0\<rparr>"
      instructions]
  by (simp add: countDeletionResults_def bucketSum_def)

theorem count_sum_without_ignored_deletions_witness:
  "list_all (\<lambda>i. \<not> (handlingReason i = Deleted \<and> action i = Ignore))
     [\<lparr>bookmarkId = ''1'', action = Delete, handlingReason = Deleted\<rparr>,
      \<lparr>bookmarkId = ''2'', action = Ignore, handlingReason = Archived\<rparr>]
   \<and> deleted (countDeletionResults
        [\<lparr>bookmarkId = ''1'', action = Delete, handlingReason = Deleted\<rparr>,
         \<lparr>bookmarkId = ''2'', action = Ignore, handlingReason = Archived\<rparr>])
     + archived (countDeletionResults
        [\<lparr>bookmarkId = ''1'', action = Delete, handlingReason = Deleted\<rparr>,
         \<lparr>bookmarkId = ''2'', action = Ignore, handlingReason = Archived\<rparr>])
     + tagged (countDeletionResults
        [\<lparr>bookmarkId = ''1'', action = Delete, handlingReason = Deleted\<rparr>,
         \<lparr>bookmarkId = ''2'', action = Ignore, handlingReason = Archived\<rparr>])
     + archivedHandled (countDeletionResults
        [\<lparr>bookmarkId = ''1'', action = Delete, handlingReason = Deleted\<rparr>,
         \<lparr>bookmarkId = ''2'', action = Ignore, handlingReason = Archived\<rparr>])
     = 2"
  using count_sum_without_ignored_deletions
    [of "[\<lparr>bookmarkId = ''1'', action = Delete, handlingReason = Deleted\<rparr>,
          \<lparr>bookmarkId = ''2'', action = Ignore, handlingReason = Archived\<rparr>]"]
  by simp

text \<open>
  C4, as stated, fails: an \<open>ignore\<close> action with reason \<open>deleted\<close> increments no
  counter, so the sum for this one-element list is 0.
\<close>

theorem count_sum_ignore_counterexample:
  "deleted (countDeletionResults
      [\<lparr>bookmarkId = ''x'', action = Ignore, handlingReason = Deleted\<rparr>])
   + archived (countDeletionResults
      [\<lparr>bookmarkId = ''x'', action = Ignore, handlingReason = Deleted\<rparr>])
   + tagged (countDeletionResults
      [\<lparr>bookmarkId = ''x'', action = Ignore, handlingReason = Deleted\<rparr>])
   + archivedHandled (countDeletionResults
      [\<lparr>bookmarkId = ''x'', action = Ignore, handlingReason = Deleted\<rparr>])
   \<noteq> length [\<lparr>bookmarkId = ''x'', action = Ignore, handlingReason = Deleted\<rparr>]"
  by (simp add: countDeletionResults_def)

subsection \<open>Tag filter\<close>

text \<open>
  C3. With a non-empty include list none of whose tags the bookmark carries, the
  result is exclusion with reason \<open>missing_included_tag\<close>, for every exclude list and
  also for a favourite.
\<close>

theorem include_check_dominates:
  "includedTags \<noteq> [] \<Longrightarrow> \<forall>t \<in> set bookmarkTags. t \<notin> set includedTags \<Longrightarrow>
     shouldIncludeBookmark bookmarkTags includedTags excludedTags isFavorited
       = \<lparr>include' = False, reason = Some missing_included_tag\<rparr>"
  by (auto simp: shouldIncludeBookmark_def list_ex_iff)

theorem include_check_dominates_witness:
  "[''work''] \<noteq> [] \<and> set [''spam'', ''fun''] \<inter> set [''work''] = {}
   \<and> shouldIncludeBookmark [''spam'', ''fun''] [''work''] [''spam''] True
       = \<lparr>include' = False, reason = Some missing_included_tag\<rparr>"
  using include_check_dominates [of "[''work'']" "[''spam'', ''fun'']" "[''spam'']" True]
  by simp

text \<open>
  C9. The result of \<open>shouldIncludeBookmark\<close> carries no reason exactly when it
  includes the bookmark; a reason, when present, is one of the two values of
  \<open>FilterReason\<close>.
\<close>

theorem reason_absent_iff_included:
  "(reason (shouldIncludeBookmark bookmarkTags includedTags excludedTags isFavorited) = None)
     = include' (shouldIncludeBookmark bookmarkTags includedTags excludedTags isFavorited)"
  by (simp add: shouldIncludeBookmark_def)

subsection \<open>Header escaping\<close>

text \<open>
  C10. \<open>escapeYaml\<close> maps \<open>null\<close>, \<open>undefined\<close> and the empty string to the empty
  string: no quotes and no block-scalar marker.
\<close>

theorem escapeYaml_absent_or_empty:
  "escapeYaml Null = [] \<and> escapeYaml Undefined = [] \<and> escapeYaml (Str []) = []"
  by (simp add: escapeYaml_def)

subsection \<open>Tag sanitizer\<close>

lemma tagChar_not_space: "tagChar c \<Longrightarrow> \<not> isSpace c"
  by (auto simp: tagChar_def isSpace_def isLetter_def isDigit_def)

lemma trim_no_space: "\<forall>c \<in> set s. \<not> isSpace c \<Longrightarrow> trim s = s"
proof -
  assume a: "\<forall>c \<in> set s. \<not> isSpace c"
  then have "dropWhile isSpace s = s" by (cases s) auto
  moreover from a have "dropWhile isSpace (rev s) = rev s" by (cases "rev s") auto
  ultimately show ?thesis by (simp add: trim_def)
qed

lemma replaceRuns_none: "\<forall>c \<in> set s. \<not> P c \<Longrightarrow> replaceRuns P r s = s"
  by (induction s) auto

lemma tag_prefix_chars: "list_all tagChar ''tag-''"
  by (simp add: tagChar_def isLetter_def)

lemma tag_prefix_not_sep: "\<not> digitOrSeparator CHR ''t''"
  by (simp add: digitOrSeparator_def isDigit_def)

lemma digit_is_sep: "isDigit c \<Longrightarrow> digitOrSeparator c"
  by (simp add: digitOrSeparator_def)

text \<open>A non-empty string of tag characters with a letter in it is returned as it is.\<close>

lemma sanitizeTag_fixed:
  assumes "s \<noteq> []" "list_all tagChar s" "\<not> list_all digitOrSeparator s"
  shows "sanitizeTag s = Some s"
proof -
  from assms(2) have ns: "\<forall>c \<in> set s. \<not> isSpace c"
    by (auto simp: list_all_iff dest: tagChar_not_space)
  have t: "trim s = s" using ns by (rule trim_no_space)
  have r: "replaceRuns isSpace ''-'' s = s" using ns by (rule replaceRuns_none)
  have f: "filter tagChar s = s" using assms(2) by (simp add: list_all_iff)
  have d: "\<not> list_all isDigit s"
    using assms(3) by (auto simp: list_all_iff dest: digit_is_sep)
  show ?thesis
    unfolding sanitizeTag_def Let_def t r f using assms(1,3) d by simp
qed

text \<open>Every result of the sanitizer is such a string.\<close>

lemma sanitizeTag_shape:
  assumes "sanitizeTag t = Some s"
  shows "s \<noteq> [] \<and> list_all tagChar s \<and> \<not> list_all digitOrSeparator s"
proof -
  define u where "u = filter tagChar (replaceRuns isSpace ''-'' (trim t))"
  have u: "list_all tagChar u" by (simp add: u_def list_all_iff)
  from assms have ne: "u \<noteq> []"
    by (auto simp: sanitizeTag_def Let_def u_def split: if_splits)
  from assms ne have s: "s = (if list_all digitOrSeparator u then ''tag-'' @ u else u)"
    by (auto simp: sanitizeTag_def Let_def u_def tag_prefix_not_sep dest: digit_is_sep
        simp: list_all_iff split: if_splits)
  show ?thesis
    using s ne u tag_prefix_chars by (auto simp: tag_prefix_not_sep)
qed

text \<open>
  C5. Whenever \<open>sanitizeTag t\<close> is not \<open>null\<close>, sanitizing its result returns the
  result unchanged.
\<close>

theorem sanitizeTag_idempotent:
  "sanitizeTag t = Some s \<Longrightarrow> sanitizeTag s = Some s"
  using sanitizeTag_shape [of t s] sanitizeTag_fixed [of s] by blast

theorem sanitizeTag_idempotent_witness:
  "sanitizeTag ''  12  / 3! '' = Some ''tag-12-/-3''
   \<and> sanitizeTag ''tag-12-/-3'' = Some ''tag-12-/-3''"
  using sanitizeTag_idempotent [of "''  12  / 3! ''" "''tag-12-/-3''"]
  by (simp add: sanitizeTag_def trim_def isSpace_def tagChar_def isLetter_def isDigit_def
      digitOrSeparator_def)

subsection \<open>Filename builder\<close>

lemma lastIndexOf_le: "lastIndexOf c s \<le> int (length s)"
  by (simp add: lastIndexOf_def)

lemma truncate_le:
  "length (if length t > 36 then
             (let truncated = take 36 t; lastDash = lastIndexOf CHR ''-'' truncated
              in if lastDash > int 36 div 2 then take (nat lastDash) truncated else truncated)
           else t) \<le> 36"
  by (simp add: Let_def)

text \<open>
  C7, as the code has it. For a creation timestamp that is a valid date whose ISO
  rendering has a ten-character date part (\<open>YYYY-MM-DD\<close>, the years 0000 to 9999),
  \<open>sanitizeFileName\<close> returns a string of at most 47 characters that begins with
  that date part followed by a hyphen.
\<close>

theorem sanitizeFileName_bound_and_prefix:
  assumes "toISOString pf (toDate pf created) = Inr isoStr"
    and "length (hd (splitOn CHR ''T'' isoStr)) = 10"
  shows "\<exists>r. sanitizeFileName pf ttl created = Inr r \<and> length r \<le> 47
           \<and> take 11 r = hd (splitOn CHR ''T'' isoStr) @ ''-''"
proof -
  define t where "t = stripDashes (replaceRuns (\<lambda>c. c = CHR ''-'') ''-''
                        (replaceRuns isSpace ''-'' (replaceEach fsInvalid ''-'' ttl)))"
  define t' where "t' = (if length t > 36 then
             (let truncated = take 36 t; lastDash = lastIndexOf CHR ''-'' truncated
              in if lastDash > int 36 div 2 then take (nat lastDash) truncated else truncated)
           else t)"
  have len: "length t' \<le> 36" unfolding t'_def by (rule truncate_le)
  have r: "sanitizeFileName pf ttl created = Inr (hd (splitOn CHR ''T'' isoStr) @ ''-'' @ t')"
    using assms(1) by (simp add: sanitizeFileName_def Let_def t_def t'_def)
  show ?thesis using r len assms(2) by simp
qed

theorem sanitizeFileName_bound_and_prefix_witness:
  "toISOString examplePlatform (toDate examplePlatform (DateString ''2024-01-15T10:30:00.000Z''))
     = Inr ''2024-01-15T10:30:00.000Z''
   \<and> length (hd (splitOn CHR ''T'' ''2024-01-15T10:30:00.000Z'')) = 10
   \<and> (\<exists>r. sanitizeFileName examplePlatform ''This is a long title with many words here''
              (DateString ''2024-01-15T10:30:00.000Z'') = Inr r
          \<and> length r \<le> 47 \<and> take 11 r = ''2024-01-15-'')"
proof -
  have a: "toISOString examplePlatform (toDate examplePlatform (DateString ''2024-01-15T10:30:00.000Z''))
     = Inr ''2024-01-15T10:30:00.000Z''"
    by (simp add: toISOString_def toDate_def examplePlatform_def)
  have b: "hd (splitOn CHR ''T'' ''2024-01-15T10:30:00.000Z'') = ''2024-01-15''"
    by simp
  from sanitizeFileName_bound_and_prefix [OF a, of "''This is a long title with many words here''"] a b
  show ?thesis by simp
qed

text \<open>
  C7, as stated, fails. The date part is taken from \<open>toISOString\<close> as it is, and
  for a valid date in the year 10000 it has 13 characters: the result has 50
  characters and does not begin with a ten-character date.
\<close>

theorem sanitizeFileName_bound_counterexample:
  "toISOString farFuturePlatform (toDate farFuturePlatform (DateObject (Some 253402300800000)))
     = Inr ''+010000-01-01T00:00:00.000Z''
   \<and> sanitizeFileName farFuturePlatform ''xxxxxxxxxxxxxxxxxxxxxxxxxxxxxxxxxxxxxxxx''
         (DateObject (Some 253402300800000))
       = Inr ''+010000-01-01-xxxxxxxxxxxxxxxxxxxxxxxxxxxxxxxxxxxx''
   \<and> length ''+010000-01-01-xxxxxxxxxxxxxxxxxxxxxxxxxxxxxxxxxxxx'' = 50
   \<and> 47 < length ''+010000-01-01-xxxxxxxxxxxxxxxxxxxxxxxxxxxxxxxxxxxx''"
  by (simp add: sanitizeFileName_def toISOString_def toDate_def farFuturePlatform_def
      replaceEach_def fsInvalid_def isSpace_def stripDashes_def lastIndexOf_def Let_def)

subsection \<open>Title resolver\<close>

text \<open>An empty text is falsy and reaches the structural fallback.\<close>

lemma getBookmarkTitle_empty_text_fallback:
  "getBookmarkTitle examplePlatform (textBookmark [] []) = Inr ''Bookmark-b1-2024-01-15''"
  by (simp add: getBookmarkTitle_def textBookmark_def examplePlatform_def toISOString_def)

text \<open>A file name that is only an extension is truthy and is stripped to the empty string.\<close>

lemma stripExtension_only_extension: "stripExtension ''.pdf'' = []"
  by simp

text \<open>
  C6 fails on the code. For a text bookmark whose text begins with a line feed the
  text is truthy, its first line is empty, and \<open>getBookmarkTitle\<close> returns the empty
  string instead of falling through to \<open>Bookmark-{id}-{date}\<close>.
\<close>

theorem getBookmarkTitle_empty_first_line:
  "getBookmarkTitle pf
     \<lparr>bid = ''b1'', createdAt = ''2024-01-15T10:30:00.000Z'', modifiedAt = Null,
      title = Undefined, bnote = Null, summary = Null, tags = [],
      content = \<lparr>ctype = Text, url = Undefined, ctitle = Undefined, description = Undefined,
                  ctext = Str (nl # ''Second line''), sourceUrl = Undefined,
                  fileName = Undefined\<rparr>\<rparr>
   = Inr []"
  by (simp add: getBookmarkTitle_def extractTitleFromText_def)

subsection \<open>Notes round trip\<close>

lemma splitOn_nonempty: "splitOn d s \<noteq> []"
  by (induction s) (auto split: list.splits)

lemma hd_splitOn_Cons:
  "hd (splitOn d (c # cs)) = (if c = d then [] else c # hd (splitOn d cs))"
  using splitOn_nonempty [of d cs] by (auto split: list.splits)

lemma tl_splitOn_Cons:
  "tl (splitOn d (c # cs)) = (if c = d then splitOn d cs else tl (splitOn d cs))"
  using splitOn_nonempty [of d cs] by (auto split: list.splits)

lemma prefix_first_line:
  "\<not> prefix p (hd (splitOn nl cs)) \<Longrightarrow> nl \<notin> set p \<Longrightarrow> \<not> prefix p (cs @ nl # r)"
proof (induction cs arbitrary: p)
  case Nil
  then show ?case by (cases p) auto
next
  case (Cons a cs)
  show ?case
  proof (cases p)
    case Nil
    with Cons.prems show ?thesis by simp
  next
    case (Cons b p')
    with Cons.prems Cons.IH [of p'] show ?thesis
      by (auto simp: hd_splitOn_Cons simp del: splitOn.simps(2) split: if_splits)
  qed
qed

lemma lazyCapture_note:
  "laterLinesPlain n \<Longrightarrow> lazyCapture (n @ nl # nl # CHR ''['' # r) = n @ [nl]"
proof (induction n)
  case Nil
  show ?case by simp
next
  case (Cons c cs)
  show ?case
  proof (cases "c = nl")
    case True
    with Cons.prems have all: "list_all (\<lambda>l. \<not> prefix ''##'' l \<and> \<not> prefix ''['' l) (splitOn nl cs)"
      by (simp add: laterLinesPlain_def tl_splitOn_Cons del: splitOn.simps(2))
    then have h: "\<not> prefix ''##'' (hd (splitOn nl cs))" "\<not> prefix ''['' (hd (splitOn nl cs))"
      using splitOn_nonempty [of nl cs] by (cases "splitOn nl cs"; simp)+
    have a: "\<not> prefix ''##'' (cs @ nl # nl # CHR ''['' # r)"
      by (rule prefix_first_line [OF h(1)]) simp
    have b: "\<not> prefix ''['' (cs @ nl # nl # CHR ''['' # r)"
      by (rule prefix_first_line [OF h(2)]) simp
    from all have "laterLinesPlain cs"
      using splitOn_nonempty [of nl cs] by (cases "splitOn nl cs") (simp_all add: laterLinesPlain_def)
    with Cons.IH a b True show ?thesis by simp
  next
    case False
    with Cons.prems have "laterLinesPlain cs"
      by (simp add: laterLinesPlain_def tl_splitOn_Cons del: splitOn.simps(2))
    with Cons.IH False show ?thesis by simp
  qed
qed

lemma trim_snoc_nl: "trim (s @ [nl]) = trim s"
proof (cases "\<forall>c \<in> set s. isSpace c")
  case True
  have sp: "isSpace nl" by (simp add: isSpace_def)
  have a: "dropWhile isSpace (s @ [nl]) = []"
    unfolding dropWhile_eq_Nil_conv using True sp by auto
  have b: "dropWhile isSpace s = []"
    unfolding dropWhile_eq_Nil_conv using True by auto
  show ?thesis unfolding trim_def a b by simp
next
  case False
  then have "dropWhile isSpace (s @ [nl]) = dropWhile isSpace s @ [nl]"
    by (auto simp: dropWhile_append)
  then show ?thesis by (simp add: trim_def isSpace_def)
qed

lemma marker_overlap:
  assumes "prefix m (x @ m @ r)" "length x < length m"
  shows "drop (length x) m = take (length m - length x) m"
  by (metis (no_types, lifting) append_eq_append_conv_if assms(1,2)
    diff_le_self length_drop nat_less_le prefixE)

lemma marker_unbordered:
  assumes "0 < k" "k < 10"
  shows "drop k notesMarker \<noteq> take (10 - k) notesMarker"
proof -
  from assms have "k = 1 \<or> k = 2 \<or> k = 3 \<or> k = 4 \<or> k = 5 \<or> k = 6 \<or> k = 7 \<or> k = 8 \<or> k = 9"
    by arith
  then show ?thesis
    by (elim disjE) (simp_all add: notesMarker_def)
qed

lemma marker_length: "length notesMarker = 10"
  by (simp add: notesMarker_def)

lemma marker_prefix_shift:
  assumes "prefix notesMarker (x @ notesMarker @ r)" "x \<noteq> []"
  shows "prefix notesMarker x"
proof (cases "length x < 10")
  case True
  from marker_overlap [OF assms(1)] True
  have "drop (length x) notesMarker = take (10 - length x) notesMarker"
    by (simp add: marker_length)
  moreover from assms(2) have "0 < length x" by simp
  ultimately show ?thesis using marker_unbordered [of "length x"] True by blast
next
  case False
  then have "length notesMarker \<le> length x" by (simp add: marker_length)
  with assms(1) show ?thesis
    using prefix_length_prefix [of notesMarker "x @ notesMarker @ r" x] by simp
qed

lemma afterFirst_marker:
  "\<not> sublist notesMarker q \<Longrightarrow> afterFirst notesMarker (q @ notesMarker @ r) = Some r"
proof (induction q)
  case Nil
  show ?case by (simp add: notesMarker_def)
next
  case (Cons a q)
  from Cons.prems have np: "\<not> prefix notesMarker (a # q)" and ns: "\<not> sublist notesMarker q"
    by (simp_all add: sublist_Cons_right)
  have "\<not> prefix notesMarker ((a # q) @ notesMarker @ r)"
    using marker_prefix_shift [of "a # q" r] np by blast
  then have "afterFirst notesMarker ((a # q) @ notesMarker @ r)
             = afterFirst notesMarker (q @ notesMarker @ r)"
    by simp
  with Cons.IH [OF ns] show ?case by simp
qed

text \<open>
  C1, as the code has it. Let the rendering not throw, let the text rendered before
  the Notes section, with the line feed that precedes the Notes header, contain no
  occurrence of the marker \<open>## Notes\<close> followed by two line feeds, and let no line
  of the note \<open>n\<close> begin with \<open>##\<close> or with \<open>[\<close>. Then the extractor applied to the
  rendered document returns \<open>n\<close> trimmed.
\<close>

theorem notes_round_trip:
  assumes "renderBeforeNotes pf cfg assets bookmark ttl highlights = Inr pre"
    and "\<not> sublist notesMarker (pre @ [nl])"
    and "bnote bookmark = Str n"
    and "list_all (\<lambda>l. \<not> prefix ''##'' l \<and> \<not> prefix ''['' l) (splitOn nl n)"
  shows "\<exists>doc. formatBookmarkAsMarkdown pf cfg assets bookmark ttl highlights = Inr doc
           \<and> extractNotesSection doc = Some (trim n)"
proof -
  have "\<exists>r. formatBookmarkAsMarkdown pf cfg assets bookmark ttl highlights
       = Inr ((pre @ [nl]) @ notesMarker @ (n @ nl # nl # CHR ''['' # r))"
  proof (cases "truthy (if ctype (content bookmark) = Link then url (content bookmark)
                        else sourceUrl (content bookmark))
                \<and> ctype (content bookmark) \<noteq> Asset")
    case True
    with assms(1,3) show ?thesis
      by (simp add: formatBookmarkAsMarkdown_def Let_def notesMarker_def)
  next
    case False
    with assms(1,3) show ?thesis
      by (simp add: formatBookmarkAsMarkdown_def Let_def notesMarker_def)
  qed
  then obtain r where doc:
    "formatBookmarkAsMarkdown pf cfg assets bookmark ttl highlights
       = Inr ((pre @ [nl]) @ notesMarker @ (n @ nl # nl # CHR ''['' # r))" ..
  from assms(4) have later: "laterLinesPlain n"
    using splitOn_nonempty [of nl n] by (cases "splitOn nl n") (simp_all add: laterLinesPlain_def)
  have "extractNotesSection ((pre @ [nl]) @ notesMarker @ (n @ nl # nl # CHR ''['' # r))
          = Some (trim n)"
    unfolding extractNotesSection_def afterFirst_marker [OF assms(2)]
    by (simp add: lazyCapture_note [OF later] trim_snoc_nl)
  with doc show ?thesis by simp
qed

theorem notes_round_trip_witness:
  "\<exists>pre. renderBeforeNotes examplePlatform exampleSettings noAssets
            (textBookmark ''Buy milk'' ''my note'') ''Buy milk'' None = Inr pre
         \<and> \<not> sublist notesMarker (pre @ [nl])
         \<and> bnote (textBookmark ''Buy milk'' ''my note'') = Str ''my note''
         \<and> list_all (\<lambda>l. \<not> prefix ''##'' l \<and> \<not> prefix ''['' l) (splitOn nl ''my note'')
         \<and> (\<exists>doc. formatBookmarkAsMarkdown examplePlatform exampleSettings noAssets
                     (textBookmark ''Buy milk'' ''my note'') ''Buy milk'' None = Inr doc
                  \<and> extractNotesSection doc = Some ''my note'')"
proof -
  have "\<exists>pre. renderBeforeNotes examplePlatform exampleSettings noAssets
            (textBookmark ''Buy milk'' ''my note'') ''Buy milk'' None = Inr pre
         \<and> \<not> sublist notesMarker (pre @ [nl])"
    by (simp add: renderBeforeNotes_def examplePlatform_def exampleSettings_def noAssets_def
        textBookmark_def toISOString_def escapeYaml_def escapeTag_def assetsYaml_def
        yamlSpecial_def replaceEach_def isSpace_def notesMarker_def Let_def sublist_code)
  then obtain pre where a: "renderBeforeNotes examplePlatform exampleSettings noAssets
            (textBookmark ''Buy milk'' ''my note'') ''Buy milk'' None = Inr pre"
    and b: "\<not> sublist notesMarker (pre @ [nl])" by blast
  have c: "bnote (textBookmark ''Buy milk'' ''my note'') = Str ''my note''"
    by (simp add: textBookmark_def)
  have d: "list_all (\<lambda>l. \<not> prefix ''##'' l \<and> \<not> prefix ''['' l) (splitOn nl ''my note'')"
    by simp
  have e: "trim ''my note'' = ''my note''"
    by (simp add: trim_def isSpace_def)
  from notes_round_trip [OF a b c d] a b c d e show ?thesis by auto
qed

text \<open>
  C1, as stated, fails. The extractor takes the leftmost marker; a text bookmark
  whose text has a Notes section of its own is rendered with that section, in the
  Description, before the plugin's Notes section, and the extractor returns the
  text's section instead of the note.
\<close>

theorem notes_round_trip_counterexample:
  "list_all (\<lambda>l. \<not> prefix ''##'' l \<and> \<not> prefix ''['' l) (splitOn nl ''my note'')
   \<and> (\<exists>doc. formatBookmarkAsMarkdown examplePlatform exampleSettings noAssets
            (textBookmark (''## Notes'' @ [nl, nl] @ ''shopping list'') ''my note'')
            ''Shopping'' None = Inr doc
         \<and> extractNotesSection doc = Some ''shopping list''
         \<and> extractNotesSection doc \<noteq> Some (trim ''my note''))"
  by (simp add: formatBookmarkAsMarkdown_def renderBeforeNotes_def examplePlatform_def
      exampleSettings_def noAssets_def textBookmark_def toISOString_def escapeYaml_def
      escapeTag_def assetsYaml_def yamlSpecial_def replaceEach_def isSpace_def
      escapeMarkdownPath_def extractNotesSection_def notesMarker_def trim_def Let_def)


subsection \<open>Single-flight guard of the sync pass\<close>

text \<open>
  C8. When \<open>isSyncing\<close> is set at invocation, \<open>syncBookmarks\<close> returns the result
  \<open>{success: false, message: "Sync already in progress"}\<close> without running the pass:
  the plugin state is returned as it was, and the world differs only by the one
  console line, so no request is sent, no file is touched and no event is
  triggered.
\<close>

theorem syncBookmarks_single_flight:
  "isSyncing p \<Longrightarrow>
     syncBookmarks tryBlock (p, w)
       = (\<lparr>success = False, message = ''Sync already in progress''\<rparr>, p,
          w\<lparr>consoleLog := consoleLog w @ [''[Hoarder] Sync already in progress'']\<rparr>)"
  by (simp add: syncBookmarks_def)

theorem syncBookmarks_single_flight_witness:
  "isSyncing busyPlugin
   \<and> syncBookmarks examplePass (busyPlugin, quietWorld)
       = (\<lparr>success = False, message = ''Sync already in progress''\<rparr>, busyPlugin,
          \<lparr>consoleLog = [''[Hoarder] Sync already in progress''], events = [],
           remoteRequests = [], fileOperations = []\<rparr>)
   \<and> fst (syncBookmarks examplePass (busyPlugin\<lparr>isSyncing := False\<rparr>, quietWorld))
       = \<lparr>success = True, message = ''Successfully synced 1 bookmark''\<rparr>
   \<and> remoteRequests (snd (snd (syncBookmarks examplePass
                                  (busyPlugin\<lparr>isSyncing := False\<rparr>, quietWorld))))
       = [''GET /bookmarks'']"
  using syncBookmarks_single_flight [of busyPlugin examplePass quietWorld]
  by (simp add: busyPlugin_def quietWorld_def syncBookmarks_def examplePass_def
      exampleSettings_def setSyncing_def showBool_def)

end
